theory Spec2Isabelle
  imports Complex_Main
begin

section \<open>Python values and dictionaries\<close>

text \<open>
  Unicode strings are lists of code points. The values that travel through the
  D-Bus adapter are Python primitives, strings, lists, the typed D-Bus containers
  \<^verbatim>\<open>dbus.Array(items, signature)\<close> and \<^verbatim>\<open>dbus.Dictionary(items, signature)\<close>, and
  opaque object references.
\<close>

type_synonym ustring = "nat list"

definition ustr :: "string \<Rightarrow> ustring" where
  "ustr s = map of_char s"

datatype pyval =
    PNone
  | PBool bool
  | PInt int
  | PFloat real
  | PStr ustring
  | PList "pyval list"
  | DBusArray "pyval list" string
  | DBusDictionary "(string \<times> pyval) list" string
  | PObj nat

text \<open>Truth value of a Python object (\<^verbatim>\<open>bool(v)\<close>, \<^verbatim>\<open>not v\<close>, \<^verbatim>\<open>if v\<close>).\<close>

fun truthy :: "pyval \<Rightarrow> bool" where
  "truthy PNone = False"
| "truthy (PBool b) = b"
| "truthy (PInt i) = (i \<noteq> 0)"
| "truthy (PFloat x) = (x \<noteq> 0)"
| "truthy (PStr s) = (s \<noteq> [])"
| "truthy (PList xs) = (xs \<noteq> [])"
| "truthy (DBusArray xs sg) = (xs \<noteq> [])"
| "truthy (DBusDictionary d sg) = (d \<noteq> [])"
| "truthy (PObj r) = True"

text \<open>\<^verbatim>\<open>isinstance(v, list)\<close>: \<^verbatim>\<open>dbus.Array\<close> is a subclass of \<^verbatim>\<open>list\<close>.\<close>

fun isinstance_list :: "pyval \<Rightarrow> bool" where
  "isinstance_list (PList xs) = True"
| "isinstance_list (DBusArray xs sg) = True"
| "isinstance_list v = False"

text \<open>\<^verbatim>\<open>v == None\<close> on the values above.\<close>

fun eq_None :: "pyval \<Rightarrow> bool" where
  "eq_None PNone = True"
| "eq_None v = False"

text \<open>
  A Python dict is an association list with distinct keys, in insertion order.
  \<^verbatim>\<open>d[k] = v\<close> overwrites the value of a key that is present, in place, and appends
  a key that is not.
\<close>

fun dict_setitem :: "('k \<times> 'v) list \<Rightarrow> 'k \<Rightarrow> 'v \<Rightarrow> ('k \<times> 'v) list" where
  "dict_setitem [] k v = [(k, v)]"
| "dict_setitem ((k', v') # d) k v =
     (if k' = k then (k, v) # d else (k', v') # dict_setitem d k v)"

text \<open>A dict display \<^verbatim>\<open>{k1: v1, ...}\<close> and \<^verbatim>\<open>d.update(other_dict)\<close> store the pairs in order.\<close>

fun dict_update :: "('k \<times> 'v) list \<Rightarrow> ('k \<times> 'v) list \<Rightarrow> ('k \<times> 'v) list" where
  "dict_update d [] = d"
| "dict_update d ((k, v) # ps) = dict_update (dict_setitem d k v) ps"

definition dict_display :: "('k \<times> 'v) list \<Rightarrow> ('k \<times> 'v) list" where
  "dict_display ps = dict_update [] ps"

section \<open>The D-Bus task dictionary (GTG/viewmanager/dbuswrapper.py)\<close>

text \<open>
  \<^verbatim>\<open>dsanitize\<close> walks over the items of \<^verbatim>\<open>data\<close> and assigns to \<^verbatim>\<open>data[k]\<close> inside
  the loop. The loop takes the items it iterates over and the dict it updates.
\<close>

fun dsanitize_loop :: "(string \<times> pyval) list \<Rightarrow> (string \<times> pyval) list \<Rightarrow> (string \<times> pyval) list" where
  "dsanitize_loop [] data = data"
| "dsanitize_loop ((k, v) # items) data =
     dsanitize_loop items
       (if \<not> truthy v \<and> isinstance_list v then dict_setitem data k (DBusArray [] ''s'')
        else if eq_None v then dict_setitem data k (PStr [])
        else data)"

definition dsanitize :: "(string \<times> pyval) list \<Rightarrow> (string \<times> pyval) list" where
  "dsanitize data = dsanitize_loop data data"

text \<open>
  A task object, as far as the adapter reads it: the results of its accessors. The
  date type and its \<^verbatim>\<open>str\<close> rendering belong to \<^verbatim>\<open>GTG.tools.dates\<close>; the rendering is
  a parameter.
\<close>

record 'd task =
  get_id :: pyval
  get_status :: pyval
  get_title :: pyval
  get_due_date :: 'd
  get_start_date :: 'd
  get_closed_date :: 'd
  get_tags_name :: pyval
  get_text :: pyval
  get_children :: pyval

definition task_fields :: "('d \<Rightarrow> ustring) \<Rightarrow> 'd task \<Rightarrow> (string \<times> pyval) list" where
  "task_fields date_str t =
     [(''id'', get_id t),
      (''status'', get_status t),
      (''title'', get_title t),
      (''duedate'', PStr (date_str (get_due_date t))),
      (''startdate'', PStr (date_str (get_start_date t))),
      (''donedate'', PStr (date_str (get_closed_date t))),
      (''tags'', get_tags_name t),
      (''text'', get_text t),
      (''subtask'', get_children t)]"

definition task_to_dict :: "('d \<Rightarrow> ustring) \<Rightarrow> 'd task \<Rightarrow> pyval" where
  "task_to_dict date_str t =
     DBusDictionary (dsanitize (dict_display (task_fields date_str t))) ''sv''"

fun dbus_items :: "pyval \<Rightarrow> (string \<times> pyval) list" where
  "dbus_items (DBusDictionary d sg) = d"
| "dbus_items v = []"

text \<open>
  The sanitization rule read value by value: an empty list becomes the typed empty
  string array, None becomes the empty string, every other value stays.
\<close>

fun sanitize_value :: "pyval \<Rightarrow> pyval" where
  "sanitize_value PNone = PStr []"
| "sanitize_value (PList []) = DBusArray [] ''s''"
| "sanitize_value (DBusArray [] sg) = DBusArray [] ''s''"
| "sanitize_value v = v"

section \<open>Errors and effects\<close>

text \<open>
  An error of the model is an instance of a subclass of Python's \<^verbatim>\<open>Exception\<close>, the
  class both handlers of the source name (\<^verbatim>\<open>except Exception\<close>). A computation
  with effects takes the state of the world and returns either the error it raised or
  its result, together with the state it left.
\<close>

datatype exn =
    TypeError
  | AttributeError
  | IndexError
  | OSError
  | PickleError
  | ExternalError nat

type_synonym ('s, 'a) action = "'s \<Rightarrow> (exn + 'a) \<times> 's"

definition act_return :: "'a \<Rightarrow> ('s, 'a) action" where
  "act_return x = (\<lambda>s. (Inr x, s))"

definition act_raise :: "exn \<Rightarrow> ('s, 'a) action" where
  "act_raise e = (\<lambda>s. (Inl e, s))"

definition act_bind :: "('s, 'a) action \<Rightarrow> ('a \<Rightarrow> ('s, 'b) action) \<Rightarrow> ('s, 'b) action" where
  "act_bind m f = (\<lambda>s. case m s of (Inl e, s') \<Rightarrow> (Inl e, s') | (Inr x, s') \<Rightarrow> f x s')"

text \<open>\<^verbatim>\<open>try: m  except Exception: h\<close>, the handler receiving the error.\<close>

definition act_try :: "('s, 'a) action \<Rightarrow> (exn \<Rightarrow> ('s, 'a) action) \<Rightarrow> ('s, 'a) action" where
  "act_try m h = (\<lambda>s. case m s of (Inl e, s') \<Rightarrow> h e s' | (Inr x, s') \<Rightarrow> (Inr x, s'))"

text \<open>A pure step that may fail, run inside a computation.\<close>

definition act_of_result :: "exn + 'a \<Rightarrow> ('s, 'a) action" where
  "act_of_result r = (\<lambda>s. (r, s))"

text \<open>\<^verbatim>\<open>for x in xs: body(x)\<close> and the list comprehension \<^verbatim>\<open>[f(x) for x in xs]\<close>.\<close>

fun for_each :: "'a list \<Rightarrow> ('a \<Rightarrow> ('s, 'b) action) \<Rightarrow> ('s, unit) action" where
  "for_each [] body = act_return ()"
| "for_each (x # xs) body = act_bind (body x) (\<lambda>_. for_each xs body)"

fun comprehension :: "'a list \<Rightarrow> ('a \<Rightarrow> ('s, 'b) action) \<Rightarrow> ('s, 'b list) action" where
  "comprehension [] f = act_return []"
| "comprehension (x # xs) f =
     act_bind (f x) (\<lambda>y. act_bind (comprehension xs f) (\<lambda>ys. act_return (y # ys)))"

section \<open>The D-Bus service object (GTG/viewmanager/dbuswrapper.py)\<close>

text \<open>
  The requester, the task tree it hands out and the view manager are objects of other
  modules: their methods are fields of the records below, acting on the state of the
  world \<open>'s\<close>. A tree is referred to by a handle \<open>'t\<close>. \<^verbatim>\<open>get_task\<close> may give
  \<^verbatim>\<open>None\<close>.
\<close>

record ('s, 't, 'd) requester =
  req_get_tasks_list :: "nat list list \<Rightarrow> ('s, pyval list) action"
  req_get_task :: "pyval \<Rightarrow> ('s, 'd task option) action"
  req_has_task :: "pyval \<Rightarrow> ('s, pyval) action"
  req_delete_task :: "pyval \<Rightarrow> ('s, pyval) action"
  req_get_custom_tasks_tree :: "('s, 't) action"
  tree_apply_filter :: "'t \<Rightarrow> pyval \<Rightarrow> ('s, pyval) action"
  tree_get_all_keys :: "'t \<Rightarrow> ('s, pyval list) action"

record 's view_manager =
  vm_hide_browser :: "('s, pyval) action"
  vm_show_browser :: "('s, pyval) action"

text \<open>
  The attributes \<^verbatim>\<open>self.req\<close> and \<^verbatim>\<open>self.view_manager\<close> are set by the constructor and
  assigned by no method.
\<close>

record ('s, 't, 'd) DBusTaskWrapper =
  req :: "('s, 't, 'd) requester"
  view_manager :: "'s view_manager"

text \<open>
  What the Python library supplies: which code points \<^verbatim>\<open>strip()\<close> takes for white
  space, \<^verbatim>\<open>unicodedata.normalize('NFKD', s)\<close>, and \<^verbatim>\<open>str\<close> of a date.
\<close>

record 'd pylib =
  py_isspace :: "nat \<Rightarrow> bool"
  normalize_NFKD :: "ustring \<Rightarrow> ustring"
  py_str_date :: "'d \<Rightarrow> ustring"

text \<open>\<^verbatim>\<open>s.split(sep)\<close> for a one-character separator: every occurrence splits.\<close>

fun py_split :: "nat \<Rightarrow> ustring \<Rightarrow> ustring list" where
  "py_split sep [] = [[]]"
| "py_split sep (c # cs) =
     (if c = sep then [] # py_split sep cs
      else (case py_split sep cs of
              [] \<Rightarrow> [[c]]
            | piece # pieces \<Rightarrow> (c # piece) # pieces))"

text \<open>\<^verbatim>\<open>s.strip()\<close>: white space is removed at both ends.\<close>

definition py_strip :: "(nat \<Rightarrow> bool) \<Rightarrow> ustring \<Rightarrow> ustring" where
  "py_strip sp s = rev (dropWhile sp (rev (dropWhile sp s)))"

text \<open>\<^verbatim>\<open>s.encode('ascii', 'ignore')\<close>: the code points below 128, as bytes.\<close>

definition encode_ascii_ignore :: "ustring \<Rightarrow> nat list" where
  "encode_ascii_ignore s = filter (\<lambda>c. c < 128) s"

definition comma :: nat where
  "comma = 44"

definition get_task_ids ::
    "'d pylib \<Rightarrow> ('s, 't, 'd) DBusTaskWrapper \<Rightarrow> ustring \<Rightarrow> ('s, pyval list) action" where
  "get_task_ids lib self status_string =
     (let status = map (\<lambda>s. py_strip (py_isspace lib) s) (py_split comma status_string);
          status = map (\<lambda>s. encode_ascii_ignore (normalize_NFKD lib s)) status
      in req_get_tasks_list (req self) status)"

text \<open>
  A call of the method with the positional arguments \<open>args\<close> after \<^verbatim>\<open>self\<close>: the
  method has one parameter, \<^verbatim>\<open>status_string\<close>, with no default, and the decorator
  \<^verbatim>\<open>dbus.service.method\<close> returns the function it is given. Any other number of arguments
  is a \<^verbatim>\<open>TypeError\<close>.
\<close>

fun call_get_task_ids ::
    "'d pylib \<Rightarrow> ('s, 't, 'd) DBusTaskWrapper \<Rightarrow> ustring list \<Rightarrow> ('s, pyval list) action" where
  "call_get_task_ids lib self [status_string] = get_task_ids lib self status_string"
| "call_get_task_ids lib self args = act_raise TypeError"

text \<open>An attribute of \<^verbatim>\<open>None\<close> is an \<^verbatim>\<open>AttributeError\<close>.\<close>

definition get_task ::
    "'d pylib \<Rightarrow> ('s, 't, 'd) DBusTaskWrapper \<Rightarrow> pyval \<Rightarrow> ('s, pyval) action" where
  "get_task lib self tid =
     act_bind (req_get_task (req self) tid)
       (\<lambda>t. case t of
               None \<Rightarrow> act_raise AttributeError
             | Some t \<Rightarrow> act_return (task_to_dict (py_str_date lib) t))"

definition get_tasks ::
    "'d pylib \<Rightarrow> ('s, 't, 'd) DBusTaskWrapper \<Rightarrow> ('s, pyval) action" where
  "get_tasks lib self =
     act_bind (call_get_task_ids lib self [])
       (\<lambda>ids. act_bind (comprehension ids (\<lambda>id. get_task lib self id))
          (\<lambda>ds. act_return (PList ds)))"

definition get_task_ids_filtered ::
    "('s, 't, 'd) DBusTaskWrapper \<Rightarrow> pyval list \<Rightarrow> ('s, pyval list) action" where
  "get_task_ids_filtered self filters =
     act_bind (req_get_custom_tasks_tree (req self))
       (\<lambda>tree. act_bind (for_each filters (\<lambda>filter. tree_apply_filter (req self) tree filter))
          (\<lambda>_. tree_get_all_keys (req self) tree))"

definition get_tasks_filtered ::
    "'d pylib \<Rightarrow> ('s, 't, 'd) DBusTaskWrapper \<Rightarrow> pyval list \<Rightarrow> ('s, pyval) action" where
  "get_tasks_filtered lib self filters =
     act_bind (get_task_ids_filtered self filters)
       (\<lambda>tasks. if tasks \<noteq> []
                 then act_bind (comprehension tasks (\<lambda>id. get_task lib self id))
                        (\<lambda>ds. act_return (PList ds))
                 else act_return (DBusArray [] ''s''))"

definition get_active_tasks ::
    "'d pylib \<Rightarrow> ('s, 't, 'd) DBusTaskWrapper \<Rightarrow> pyval \<Rightarrow> ('s, pyval) action" where
  "get_active_tasks lib self tags =
     get_tasks_filtered lib self [PStr (ustr ''active''), PStr (ustr ''workable'')]"

definition has_task :: "('s, 't, 'd) DBusTaskWrapper \<Rightarrow> pyval \<Rightarrow> ('s, pyval) action" where
  "has_task self tid = req_has_task (req self) tid"

text \<open>A method body that ends without \<^verbatim>\<open>return\<close> gives \<^verbatim>\<open>None\<close>.\<close>

definition delete_task :: "('s, 't, 'd) DBusTaskWrapper \<Rightarrow> pyval \<Rightarrow> ('s, pyval) action" where
  "delete_task self tid = act_bind (req_delete_task (req self) tid) (\<lambda>_. act_return PNone)"

definition hide_task_browser :: "('s, 't, 'd) DBusTaskWrapper \<Rightarrow> ('s, pyval) action" where
  "hide_task_browser self = act_bind (vm_hide_browser (view_manager self)) (\<lambda>_. act_return PNone)"

definition show_task_browser :: "('s, 't, 'd) DBusTaskWrapper \<Rightarrow> ('s, pyval) action" where
  "show_task_browser self = act_bind (vm_show_browser (view_manager self)) (\<lambda>_. act_return PNone)"

section \<open>The plugin API (GTG/core/plugins/api.py)\<close>

text \<open>
  The attributes of a \<^verbatim>\<open>PluginAPI\<close> object that its predicates and the widget methods
  read and write: the task of the editor (\<^verbatim>\<open>None\<close> for the browser), the counter of
  the widgets added, and the list of those widgets.
\<close>

record 'w PluginAPI =
  task_id :: pyval
  taskwidget_id :: int
  taskwidget_widg :: "'w list"

definition is_editor :: "'w PluginAPI \<Rightarrow> bool" where
  "is_editor self = truthy (task_id self)"

definition is_browser :: "'w PluginAPI \<Rightarrow> bool" where
  "is_browser self = (\<not> is_editor self)"

text \<open>
  The toolkit and the logger: the builder's lookup (\<^verbatim>\<open>None\<close> when no object has the
  name; a container that is found is true in a condition), the removal of a widget from
  a container, the comparison \<^verbatim>\<open>widg_id == widget\<close>
  that the membership test makes, and \<^verbatim>\<open>log.exception\<close>, which records the message and
  the error being handled.
\<close>

record ('s, 'w, 'c) toolkit =
  builder_get_object :: "string \<Rightarrow> ('s, 'c option) action"
  container_remove :: "'c \<Rightarrow> 'w \<Rightarrow> ('s, pyval) action"
  widget_eq :: "pyval \<Rightarrow> 'w \<Rightarrow> ('s, bool) action"
  log_exception :: "string \<Rightarrow> exn \<Rightarrow> 's \<Rightarrow> 's"

text \<open>\<^verbatim>\<open>x in xs\<close>: the elements are compared with \<open>x\<close> in order, up to the first match.\<close>

fun py_contains :: "('a \<Rightarrow> ('s, bool) action) \<Rightarrow> 'a list \<Rightarrow> ('s, bool) action" where
  "py_contains eq [] = act_return False"
| "py_contains eq (w # ws) =
     act_bind (eq w) (\<lambda>b. if b then act_return True else py_contains eq ws)"

text \<open>
  An object used as a list index: an integer, or a boolean (an integer in Python);
  anything else is a \<^verbatim>\<open>TypeError\<close>.
\<close>

fun py_index :: "pyval \<Rightarrow> int option" where
  "py_index (PInt i) = Some i"
| "py_index (PBool b) = Some (if b then 1 else 0)"
| "py_index v = None"

text \<open>
  \<^verbatim>\<open>xs.pop(i)\<close>: a negative index counts from the end, an index out of range is an
  \<^verbatim>\<open>IndexError\<close>. The result is the element and the list without it.
\<close>

definition list_pop :: "'a list \<Rightarrow> pyval \<Rightarrow> exn + ('a \<times> 'a list)" where
  "list_pop xs i =
     (case py_index i of
        None \<Rightarrow> Inl TypeError
      | Some i \<Rightarrow>
          (let n = int (length xs); j = (if i < 0 then i + n else i)
           in if 0 \<le> j \<and> j < n
              then Inr (xs ! nat j, take (nat j) xs @ drop (Suc (nat j)) xs)
              else Inl IndexError))"

text \<open>
  The methods of the object act on its attributes and on the world: the state is the
  pair of both. A computation of the world runs on the second component.
\<close>

definition in_world :: "('s, 'a) action \<Rightarrow> ('p \<times> 's, 'a) action" where
  "in_world m = (\<lambda>(self, s). case m s of (r, s') \<Rightarrow> (r, (self, s')))"

definition taskwidget_widg_pop :: "pyval \<Rightarrow> ('w PluginAPI \<times> 's, 'w) action" where
  "taskwidget_widg_pop i =
     (\<lambda>(self, s). case list_pop (taskwidget_widg self) i of
        Inl e \<Rightarrow> (Inl e, (self, s))
      | Inr (w, ws) \<Rightarrow> (Inr w, (self\<lparr>taskwidget_widg := ws\<rparr>, s)))"

definition taskwidget_widg_contains ::
    "('s, 'w, 'c) toolkit \<Rightarrow> pyval \<Rightarrow> ('w PluginAPI \<times> 's, bool) action" where
  "taskwidget_widg_contains tk widg_id =
     (\<lambda>(self, s). in_world (py_contains (widget_eq tk widg_id) (taskwidget_widg self)) (self, s))"

definition remove_message :: string where
  "remove_message = ''Error removing the toolbar item in the TaskEditor:''"

text \<open>The suite of the \<^verbatim>\<open>try\<close> statement of \<^verbatim>\<open>remove_widget_from_taskeditor\<close>.\<close>

definition remove_widget_suite ::
    "('s, 'w, 'c) toolkit \<Rightarrow> pyval \<Rightarrow> ('w PluginAPI \<times> 's, pyval) action" where
  "remove_widget_suite tk widg_id =
     act_bind (in_world (builder_get_object tk ''vbox4''))
       (\<lambda>wi. case wi of
                None \<Rightarrow> act_return PNone
              | Some c \<Rightarrow>
                  act_bind (taskwidget_widg_contains tk widg_id)
                    (\<lambda>found. if found
                       then act_bind (taskwidget_widg_pop widg_id)
                              (\<lambda>w. act_bind (in_world (container_remove tk c w))
                                 (\<lambda>_. act_return PNone))
                       else act_return PNone))"

definition remove_widget_from_taskeditor ::
    "('s, 'w, 'c) toolkit \<Rightarrow> pyval \<Rightarrow> ('w PluginAPI \<times> 's, pyval) action" where
  "remove_widget_from_taskeditor tk widg_id =
     (\<lambda>(self, s).
        if is_editor self \<and> truthy widg_id
        then act_try (remove_widget_suite tk widg_id)
               (\<lambda>e. \<lambda>(self', s'). (Inr PNone, (self', log_exception tk remove_message e s')))
               (self, s)
        else (Inr PNone, (self, s)))"

subsection \<open>Saving and loading a plugin's configuration\<close>

text \<open>
  What the suite of \<^verbatim>\<open>load_configuration_object\<close> can raise. \<^verbatim>\<open>pickle.load\<close> calls what
  the bytes of the file name (a pickle can name \<^verbatim>\<open>sys.exit\<close> and have it called), so
  besides an instance of \<^verbatim>\<open>Exception\<close> it can raise one of the exceptions that derive
  from \<^verbatim>\<open>BaseException\<close> only, and these \<^verbatim>\<open>except Exception\<close> does not catch.
\<close>

datatype raised =
    Exception exn
  | SystemExit
  | KeyboardInterrupt
  | GeneratorExit

type_synonym ('s, 'a) raising = "'s \<Rightarrow> (raised + 'a) \<times> 's"

definition raising_return :: "'a \<Rightarrow> ('s, 'a) raising" where
  "raising_return x = (\<lambda>s. (Inr x, s))"

definition raising_bind ::
    "('s, 'a) raising \<Rightarrow> ('a \<Rightarrow> ('s, 'b) raising) \<Rightarrow> ('s, 'b) raising" where
  "raising_bind m f = (\<lambda>s. case m s of (Inl r, s') \<Rightarrow> (Inl r, s') | (Inr x, s') \<Rightarrow> f x s')"

text \<open>
  \<^verbatim>\<open>try: m  except Exception: h\<close> around a suite that can raise any of them: the handler
  receives an instance of \<^verbatim>\<open>Exception\<close>, anything else leaves the statement.
\<close>

definition try_except_Exception ::
    "('s, 'a) raising \<Rightarrow> (exn \<Rightarrow> ('s, 'a) raising) \<Rightarrow> ('s, 'a) raising" where
  "try_except_Exception m h =
     (\<lambda>s. case m s of
        (Inl r, s') \<Rightarrow> (case r of Exception e \<Rightarrow> h e s' | _ \<Rightarrow> (Inl r, s'))
      | (Inr x, s') \<Rightarrow> (Inr x, s'))"

text \<open>A pure step that may fail: with an error of the operating system, or with anything.\<close>

definition raising_of_error :: "exn + 'a \<Rightarrow> ('s, 'a) raising" where
  "raising_of_error r = (\<lambda>s. case r of Inl e \<Rightarrow> (Inl (Exception e), s) | Inr x \<Rightarrow> (Inr x, s))"

definition raising_of_result :: "raised + 'a \<Rightarrow> ('s, 'a) raising" where
  "raising_of_result r = (\<lambda>s. (r, s))"

text \<open>
  An unpickled object, as \<^verbatim>\<open>dict.update\<close> sees it: a dict, or any other object, which
  is described by the pairs that \<^verbatim>\<open>update\<close> stores from it before it finishes or fails
  (an integer gives no pair and a \<^verbatim>\<open>TypeError\<close>, a list of pairs gives all of them and
  no error, the list \<^verbatim>\<open>[(1, 2), 3]\<close> gives the pair \<^verbatim>\<open>(1, 2)\<close> and a \<^verbatim>\<open>TypeError\<close>).
\<close>

datatype ('k, 'v) pickled =
    Dict "('k \<times> 'v) list"
  | Other "('k \<times> 'v) list" "raised option"

text \<open>
  The operating system and \<^verbatim>\<open>pickle\<close>, on a file system \<open>'fs\<close>: the directory of a
  plugin (\<^verbatim>\<open>GTG.core.dirs\<close>), \<^verbatim>\<open>os.path.isdir\<close>, \<^verbatim>\<open>os.makedirs\<close>, the content of a file
  opened for reading, a file opened for writing (created or emptied), the bytes written
  to it, and the two directions of \<^verbatim>\<open>pickle\<close>. Opening and reading fail with an error
  of the operating system; unpickling fails with whatever the code that the bytes name
  raises.
\<close>

record ('fs, 'k, 'v) system =
  plugin_configuration_dir :: "string \<Rightarrow> string"
  os_path_isdir :: "string \<Rightarrow> 'fs \<Rightarrow> bool"
  os_makedirs :: "string \<Rightarrow> ('fs, unit) action"
  open_rb :: "string \<Rightarrow> 'fs \<Rightarrow> exn + nat list"
  open_wb :: "string \<Rightarrow> ('fs, unit) action"
  file_write :: "string \<Rightarrow> nat list \<Rightarrow> ('fs, unit) action"
  pickle_load :: "nat list \<Rightarrow> raised + ('k, 'v) pickled"
  pickle_dump :: "('k, 'v) pickled \<Rightarrow> exn + nat list"

text \<open>\<^verbatim>\<open>os.path.join(a, b)\<close> for two components (posixpath).\<close>

definition os_path_join :: "string \<Rightarrow> string \<Rightarrow> string" where
  "os_path_join a b =
     (if b \<noteq> [] \<and> hd b = CHR ''/'' then b
      else if a = [] \<or> last a = CHR ''/'' then a @ b
      else a @ ''/'' @ b)"

text \<open>\<^verbatim>\<open>config.update(item)\<close>, on the dict \<^verbatim>\<open>config\<close> as the state.\<close>

fun config_update :: "('k, 'v) pickled \<Rightarrow> (('k \<times> 'v) list, unit) raising" where
  "config_update (Dict d) = (\<lambda>config. (Inr (), dict_update config d))"
| "config_update (Other ps None) = (\<lambda>config. (Inr (), dict_update config ps))"
| "config_update (Other ps (Some r)) = (\<lambda>config. (Inl r, dict_update config ps))"

text \<open>The suite of the \<^verbatim>\<open>try\<close> statement of \<^verbatim>\<open>load_configuration_object\<close>.\<close>

definition load_suite ::
    "('fs, 'k, 'v) system \<Rightarrow> string \<Rightarrow> 'fs \<Rightarrow> (('k \<times> 'v) list, unit) raising" where
  "load_suite sys path fs =
     raising_bind (raising_of_error (open_rb sys path fs))
       (\<lambda>content. raising_bind (raising_of_result (pickle_load sys content))
          (\<lambda>item. config_update item))"

text \<open>
  \<^verbatim>\<open>load_configuration_object\<close>: the dict it returns, or what it raises. The handler is
  \<^verbatim>\<open>except Exception: pass\<close>.
\<close>

definition load_configuration_object ::
    "('fs, 'k, 'v) system \<Rightarrow> string \<Rightarrow> string \<Rightarrow> ('k \<times> 'v) list option \<Rightarrow> 'fs
      \<Rightarrow> raised + ('k \<times> 'v) list" where
  "load_configuration_object sys plugin_name filename default_values fs =
     (let config = (case default_values of Some d \<Rightarrow> d | None \<Rightarrow> []);
          dirname = plugin_configuration_dir sys plugin_name;
          path = os_path_join dirname filename
      in case try_except_Exception (load_suite sys path fs) (\<lambda>e. raising_return ()) config of
           (Inl r, config') \<Rightarrow> Inl r
         | (Inr _, config') \<Rightarrow> Inr config')"

definition save_configuration_object ::
    "('fs, 'k, 'v) system \<Rightarrow> string \<Rightarrow> string \<Rightarrow> ('k, 'v) pickled \<Rightarrow> ('fs, pyval) action" where
  "save_configuration_object sys plugin_name filename item =
     (let dirname = plugin_configuration_dir sys plugin_name
      in act_bind (\<lambda>fs. if \<not> os_path_isdir sys dirname fs
                         then os_makedirs sys dirname fs else (Inr (), fs))
           (\<lambda>_. let path = os_path_join dirname filename
                 in act_bind (open_wb sys path)
                      (\<lambda>_. act_bind (act_of_result (pickle_dump sys item))
                         (\<lambda>bytes. act_bind (file_write sys path bytes)
                            (\<lambda>_. act_return PNone)))))"

section \<open>Concrete objects\<close>

text \<open>A task whose dates are kept as the strings they print as.\<close>

definition example_task :: "string task" where
  "example_task =
     \<lparr>get_id = PStr (ustr ''7@1''), get_status = PStr (ustr ''Active''), get_title = PNone,
      get_due_date = ''2013-05-01'', get_start_date = [], get_closed_date = [],
      get_tags_name = PList [], get_text = PStr (ustr ''milk''), get_children = PList []\<rparr>"

text \<open>\<^verbatim>\<open>sep.join(pieces)\<close>, the inverse of splitting.\<close>

fun py_join :: "nat \<Rightarrow> ustring list \<Rightarrow> ustring" where
  "py_join sep [] = []"
| "py_join sep [p] = p"
| "py_join sep (p # q # ps) = p @ sep # py_join sep (q # ps)"

text \<open>
  A requester, a task tree and a view manager that keep the list of the calls made on
  them as the state of the world. The store holds the one task \<open>example_task\<close>.
\<close>

datatype call =
    GetTasksList "nat list list"
  | GetTask pyval
  | HasTask pyval
  | DeleteTask pyval
  | GetCustomTasksTree
  | ApplyFilter pyval
  | GetAllKeys
  | HideBrowser
  | ShowBrowser

definition recording_requester :: "(call list, unit, string) requester" where
  "recording_requester =
     \<lparr>req_get_tasks_list = (\<lambda>status s. (Inr [PStr (ustr ''7@1'')], s @ [GetTasksList status])),
      req_get_task = (\<lambda>tid s. (Inr (if tid = PStr (ustr ''7@1'') then Some example_task else None),
                                 s @ [GetTask tid])),
      req_has_task = (\<lambda>tid s. (Inr (PBool (tid = PStr (ustr ''7@1''))), s @ [HasTask tid])),
      req_delete_task = (\<lambda>tid s. (Inr (PBool True), s @ [DeleteTask tid])),
      req_get_custom_tasks_tree = (\<lambda>s. (Inr (), s @ [GetCustomTasksTree])),
      tree_apply_filter = (\<lambda>tree f s. (Inr PNone, s @ [ApplyFilter f])),
      tree_get_all_keys = (\<lambda>tree s. (Inr [PStr (ustr ''7@1'')], s @ [GetAllKeys]))\<rparr>"

definition recording_view_manager :: "call list view_manager" where
  "recording_view_manager =
     \<lparr>vm_hide_browser = (\<lambda>s. (Inr PNone, s @ [HideBrowser])),
      vm_show_browser = (\<lambda>s. (Inr PNone, s @ [ShowBrowser]))\<rparr>"

definition recording_wrapper :: "(call list, unit, string) DBusTaskWrapper" where
  "recording_wrapper = \<lparr>req = recording_requester, view_manager = recording_view_manager\<rparr>"

text \<open>
  A library for concrete runs: the ASCII white space, a normalization that decomposes
  U+00E9 into \<open>e\<close> and the combining acute accent and leaves the rest, and dates
  that print as they are stored.
\<close>

definition example_lib :: "string pylib" where
  "example_lib =
     \<lparr>py_isspace = (\<lambda>c. c = 32 \<or> (9 \<le> c \<and> c \<le> 13)),
      normalize_NFKD = concat \<circ> map (\<lambda>c. if c = 233 then [101, 769] else [c]),
      py_str_date = ustr\<rparr>"

text \<open>
  A toolkit for concrete runs. Widgets are numbers, an id equals the widget of that
  number, the builder knows the one container \<^verbatim>\<open>vbox4\<close>, and the world is the list of the
  widgets removed from it and of the errors logged.
\<close>

datatype event = Removed nat | Logged string exn

definition example_toolkit :: "(event list, nat, unit) toolkit" where
  "example_toolkit =
     \<lparr>builder_get_object = (\<lambda>name s. (Inr (if name = ''vbox4'' then Some () else None), s)),
      container_remove = (\<lambda>c w s. (Inr PNone, s @ [Removed w])),
      widget_eq = (\<lambda>v w s. (Inr (v = PInt (int w)), s)),
      log_exception = (\<lambda>msg e s. s @ [Logged msg e])\<rparr>"

definition example_editor :: "nat PluginAPI" where
  "example_editor = \<lparr>task_id = PStr (ustr ''7@1''), taskwidget_id = 2, taskwidget_widg = [1, 2]\<rparr>"

definition example_browser :: "nat PluginAPI" where
  "example_browser = \<lparr>task_id = PNone, taskwidget_id = 2, taskwidget_widg = [1, 2]\<rparr>"

text \<open>
  A file system for concrete runs: the directories and the files with their bytes. The
  pickle of a dict of numbers is the byte 0 followed by its keys and values in turn; no
  other object can be pickled; bytes that start with 1 unpickle to an object that is not
  a dict and not iterable, bytes that start with 2 to the list of the pairs that follow
  and then a number (as \<^verbatim>\<open>[(1, 2), 3]\<close>). The bytes \<^verbatim>\<open>exit_pickle\<close> are those of the
  pickle that names \<^verbatim>\<open>sys.exit\<close> and calls it on the empty tuple (\<^verbatim>\<open>csys\<close>, line feed,
  \<^verbatim>\<open>exit\<close>, line feed, \<^verbatim>\<open>(tR.\<close>): unpickling them raises \<^verbatim>\<open>SystemExit\<close>, as it does
  in Python.
\<close>

fun pairs_of :: "nat list \<Rightarrow> (nat \<times> nat) list" where
  "pairs_of (k # v # rest) = (k, v) # pairs_of rest"
| "pairs_of rest = []"

definition exit_pickle :: "nat list" where
  "exit_pickle = [99, 115, 121, 115, 10, 101, 120, 105, 116, 10, 40, 116, 82, 46]"

definition example_load :: "nat list \<Rightarrow> raised + (nat, nat) pickled" where
  "example_load bytes =
     (if bytes = exit_pickle then Inl SystemExit
      else case bytes of
             [] \<Rightarrow> Inl (Exception PickleError)
           | tag # rest \<Rightarrow>
               if tag = 0 \<and> even (length rest) then Inr (Dict (pairs_of rest))
               else if tag = 1 then Inr (Other [] (Some (Exception TypeError)))
               else if tag = 2 then Inr (Other (pairs_of rest) (Some (Exception TypeError)))
               else Inl (Exception PickleError))"

fun example_dump :: "(nat, nat) pickled \<Rightarrow> exn + nat list" where
  "example_dump (Dict d) = Inr (0 # concat (map (\<lambda>(k, v). [k, v]) d))"
| "example_dump (Other ps e) = Inl PickleError"

definition example_system :: "(string list \<times> (string \<times> nat list) list, nat, nat) system" where
  "example_system =
     \<lparr>plugin_configuration_dir = (\<lambda>name. ''/cfg/plugins/'' @ name),
      os_path_isdir = (\<lambda>p (dirs, files). p \<in> set dirs),
      os_makedirs = (\<lambda>p (dirs, files).
         if p \<in> set dirs \<or> p \<in> fst ` set files then (Inl OSError, (dirs, files))
         else (Inr (), (p # dirs, files))),
      open_rb = (\<lambda>p (dirs, files).
         case map_of files p of None \<Rightarrow> Inl OSError | Some b \<Rightarrow> Inr b),
      open_wb = (\<lambda>p (dirs, files).
         if p \<in> set dirs then (Inl OSError, (dirs, files))
         else (Inr (), (dirs, dict_setitem files p []))),
      file_write = (\<lambda>p b (dirs, files). (Inr (), (dirs, dict_setitem files p b))),
      pickle_load = example_load,
      pickle_dump = example_dump\<rparr>"

section \<open>Properties of the dictionary operations\<close>

lemma dict_setitem_append:
  "k \<notin> fst ` set pre \<Longrightarrow>
   dict_setitem (pre @ (k, v) # post) k v' = pre @ (k, v') # post"
  by (induction pre) auto

lemma dsanitize_loop_append:
  "distinct (map fst (pre @ items)) \<Longrightarrow>
   dsanitize_loop items (pre @ items) =
     pre @ map (\<lambda>(k, v). (k, if \<not> truthy v \<and> isinstance_list v then DBusArray [] ''s''
                              else if eq_None v then PStr [] else v)) items"
proof (induction items arbitrary: pre)
  case Nil
  then show ?case by simp
next
  case (Cons kv items)
  obtain k v where kv: "kv = (k, v)" by (cases kv)
  let ?s = "if \<not> truthy v \<and> isinstance_list v then DBusArray [] ''s''
            else if eq_None v then PStr [] else v"
  from Cons.prems kv have notin: "k \<notin> fst ` set pre" by auto
  have step: "(if \<not> truthy v \<and> isinstance_list v then dict_setitem (pre @ (k, v) # items) k (DBusArray [] ''s'')
               else if eq_None v then dict_setitem (pre @ (k, v) # items) k (PStr [])
               else pre @ (k, v) # items) = (pre @ [(k, ?s)]) @ items"
    using notin by (simp add: dict_setitem_append)
  from Cons.prems kv have d: "distinct (map fst ((pre @ [(k, ?s)]) @ items))" by auto
  have "dsanitize_loop (kv # items) (pre @ kv # items) =
        dsanitize_loop items ((pre @ [(k, ?s)]) @ items)"
    unfolding kv dsanitize_loop.simps step ..
  also have "\<dots> = (pre @ [(k, ?s)]) @ map (\<lambda>(k, v). (k, if \<not> truthy v \<and> isinstance_list v then DBusArray [] ''s''
                              else if eq_None v then PStr [] else v)) items"
    by (rule Cons.IH [OF d])
  finally show ?case by (simp add: kv)
qed

lemma dsanitize_map:
  "distinct (map fst data) \<Longrightarrow>
   dsanitize data =
     map (\<lambda>(k, v). (k, if \<not> truthy v \<and> isinstance_list v then DBusArray [] ''s''
                        else if eq_None v then PStr [] else v)) data"
  using dsanitize_loop_append [of "[]" data] by (simp add: dsanitize_def)

lemma sanitize_value_eq:
  "(if \<not> truthy v \<and> isinstance_list v then DBusArray [] ''s''
    else if eq_None v then PStr [] else v) = sanitize_value v"
  by (cases v rule: sanitize_value.cases) auto

lemma dsanitize_sanitize_value:
  "distinct (map fst data) \<Longrightarrow>
   dsanitize data = map (\<lambda>(k, v). (k, sanitize_value v)) data"
  by (simp add: dsanitize_map sanitize_value_eq)

lemma map_of_sanitized:
  "distinct (map fst data) \<Longrightarrow> (k, v) \<in> set data \<Longrightarrow>
   map_of (map (\<lambda>(k, v). (k, sanitize_value v)) data) k = Some (sanitize_value v)"
  by (induction data) (auto simp: rev_image_eqI)

lemma sanitize_value_not_None: "sanitize_value v \<noteq> PNone"
  by (cases v rule: sanitize_value.cases) auto

lemma sanitize_value_not_empty_list: "sanitize_value v \<noteq> PList []"
  by (cases v rule: sanitize_value.cases) auto

lemma task_fields_distinct: "distinct (map fst (task_fields date_str t))"
  by (simp add: task_fields_def)

lemma dict_display_task_fields:
  "dict_display (task_fields date_str t) = task_fields date_str t"
  by (simp add: dict_display_def task_fields_def)

lemma task_to_dict_items:
  "dbus_items (task_to_dict date_str t) =
     map (\<lambda>(k, v). (k, sanitize_value v)) (task_fields date_str t)"
  by (simp add: task_to_dict_def dict_display_task_fields
      dsanitize_sanitize_value [OF task_fields_distinct])

section \<open>The task dictionary is sanitized\<close>

text \<open>
  Claim C1. For a dict (distinct keys) whose values are primitives, strings or lists,
  \<^verbatim>\<open>dsanitize\<close> returns a dict with the same keys, in which an empty list has become
  the typed empty D-Bus array \<^verbatim>\<open>dbus.Array([], "s")\<close>, \<^verbatim>\<open>None\<close> has become the empty
  string and every other value is the one it was. So the dictionary that
  \<^verbatim>\<open>task_to_dict\<close> builds from a task holds neither \<^verbatim>\<open>None\<close> nor a plain empty list:
  a field that was an empty list holds the typed empty array, and a field that was
  \<^verbatim>\<open>None\<close> holds the empty string.
\<close>

theorem dsanitize_sanitizes:
  assumes "distinct (map fst data)"
  shows "map fst (dsanitize data) = map fst data \<and>
         (\<forall>(k, v) \<in> set data.
            map_of (dsanitize data) k =
              Some (if v = PList [] \<or> (\<exists>sg. v = DBusArray [] sg) then DBusArray [] ''s''
                    else if v = PNone then PStr []
                    else v)) \<and>
         (\<forall>(k, v) \<in> set (dbus_items (task_to_dict date_str t)). v \<noteq> PNone \<and> v \<noteq> PList []) \<and>
         (\<forall>(k, v) \<in> set (task_fields date_str t).
            (v = PList [] \<longrightarrow>
               map_of (dbus_items (task_to_dict date_str t)) k = Some (DBusArray [] ''s'')) \<and>
            (v = PNone \<longrightarrow>
               map_of (dbus_items (task_to_dict date_str t)) k = Some (PStr [])))"
proof -
  have val: "sanitize_value v =
        (if v = PList [] \<or> (\<exists>sg. v = DBusArray [] sg) then DBusArray [] ''s''
         else if v = PNone then PStr [] else v)" for v
    by (cases v rule: sanitize_value.cases) auto
  have keys: "map fst (dsanitize data) = map fst data"
    using assms by (simp add: dsanitize_sanitize_value comp_def case_prod_unfold)
  have vals: "\<forall>(k, v) \<in> set data. map_of (dsanitize data) k =
              Some (if v = PList [] \<or> (\<exists>sg. v = DBusArray [] sg) then DBusArray [] ''s''
                    else if v = PNone then PStr []
                    else v)"
    using assms map_of_sanitized [OF assms]
    by (auto simp: dsanitize_sanitize_value val [symmetric])
  have clean: "\<forall>(k, v) \<in> set (dbus_items (task_to_dict date_str t)). v \<noteq> PNone \<and> v \<noteq> PList []"
    by (auto simp: task_to_dict_items sanitize_value_not_None sanitize_value_not_empty_list)
  have typed: "\<forall>(k, v) \<in> set (task_fields date_str t).
            (v = PList [] \<longrightarrow>
               map_of (dbus_items (task_to_dict date_str t)) k = Some (DBusArray [] ''s'')) \<and>
            (v = PNone \<longrightarrow>
               map_of (dbus_items (task_to_dict date_str t)) k = Some (PStr []))"
    using map_of_sanitized [OF task_fields_distinct, of _ _ date_str t]
    by (auto simp: task_to_dict_items)
  from keys vals clean typed show ?thesis by blast
qed

theorem dsanitize_sanitizes_witness:
  "distinct (map fst [(''a'', PList []), (''b'', PNone), (''c'', PInt 3)]) \<and>
   map fst (dsanitize [(''a'', PList []), (''b'', PNone), (''c'', PInt 3)]) = [''a'', ''b'', ''c''] \<and>
   map_of (dsanitize [(''a'', PList []), (''b'', PNone), (''c'', PInt 3)]) ''a'' = Some (DBusArray [] ''s'') \<and>
   map_of (dsanitize [(''a'', PList []), (''b'', PNone), (''c'', PInt 3)]) ''b'' = Some (PStr []) \<and>
   map_of (dsanitize [(''a'', PList []), (''b'', PNone), (''c'', PInt 3)]) ''c'' = Some (PInt 3) \<and>
   map_of (dbus_items (task_to_dict ustr example_task)) ''title'' = Some (PStr []) \<and>
   map_of (dbus_items (task_to_dict ustr example_task)) ''tags'' = Some (DBusArray [] ''s'')"
proof -
  have h: "distinct (map fst [(''a'', PList []), (''b'', PNone), (''c'', PInt 3)])"
    by simp
  show ?thesis
    using h dsanitize_sanitizes [OF h, of ustr example_task]
    by (simp add: task_fields_def example_task_def)
qed

text \<open>
  Claim C2. The dictionary that \<^verbatim>\<open>task_to_dict\<close> returns has exactly the nine keys id,
  status, title, duedate, startdate, donedate, tags, text and subtask, each once. Under
  id, status, title, tags, text and subtask it holds the sanitized result of the task's
  accessor; under duedate, startdate and donedate it holds the string that \<^verbatim>\<open>str\<close> gives
  for the task's due, start and closed date.
\<close>

theorem task_to_dict_fields:
  "fst ` set (dbus_items (task_to_dict date_str t)) =
     {''id'', ''status'', ''title'', ''duedate'', ''startdate'', ''donedate'', ''tags'', ''text'',
      ''subtask''} \<and>
   distinct (map fst (dbus_items (task_to_dict date_str t))) \<and>
   (\<exists>d. task_to_dict date_str t = DBusDictionary d ''sv'') \<and>
   map_of (dbus_items (task_to_dict date_str t)) ''id'' = Some (sanitize_value (get_id t)) \<and>
   map_of (dbus_items (task_to_dict date_str t)) ''status'' = Some (sanitize_value (get_status t)) \<and>
   map_of (dbus_items (task_to_dict date_str t)) ''title'' = Some (sanitize_value (get_title t)) \<and>
   map_of (dbus_items (task_to_dict date_str t)) ''duedate'' = Some (PStr (date_str (get_due_date t))) \<and>
   map_of (dbus_items (task_to_dict date_str t)) ''startdate'' = Some (PStr (date_str (get_start_date t))) \<and>
   map_of (dbus_items (task_to_dict date_str t)) ''donedate'' = Some (PStr (date_str (get_closed_date t))) \<and>
   map_of (dbus_items (task_to_dict date_str t)) ''tags'' = Some (sanitize_value (get_tags_name t)) \<and>
   map_of (dbus_items (task_to_dict date_str t)) ''text'' = Some (sanitize_value (get_text t)) \<and>
   map_of (dbus_items (task_to_dict date_str t)) ''subtask'' = Some (sanitize_value (get_children t))"
proof -
  have items: "dbus_items (task_to_dict date_str t) =
      [(''id'', sanitize_value (get_id t)),
       (''status'', sanitize_value (get_status t)),
       (''title'', sanitize_value (get_title t)),
       (''duedate'', PStr (date_str (get_due_date t))),
       (''startdate'', PStr (date_str (get_start_date t))),
       (''donedate'', PStr (date_str (get_closed_date t))),
       (''tags'', sanitize_value (get_tags_name t)),
       (''text'', sanitize_value (get_text t)),
       (''subtask'', sanitize_value (get_children t))]"
    by (simp add: task_to_dict_items task_fields_def)
  have dict: "\<exists>d. task_to_dict date_str t = DBusDictionary d ''sv''"
    by (simp add: task_to_dict_def)
  show ?thesis
    unfolding items using dict by simp
qed

theorem task_to_dict_fields_witness:
  "map_of (dbus_items (task_to_dict ustr example_task)) ''duedate'' = Some (PStr (ustr ''2013-05-01'')) \<and>
   map_of (dbus_items (task_to_dict ustr example_task)) ''id'' = Some (PStr (ustr ''7@1'')) \<and>
   map_of (dbus_items (task_to_dict ustr example_task)) ''subtask'' = Some (DBusArray [] ''s'')"
  using task_to_dict_fields [of ustr example_task]
  by (simp add: example_task_def)

section \<open>Effects\<close>

lemma act_bind_raise: "act_bind (act_raise e) f = act_raise e"
  by (simp add: act_bind_def act_raise_def)

lemma act_bind_return: "act_bind (act_return x) f = f x"
  by (simp add: act_bind_def act_return_def)

section \<open>The status list of get_task_ids\<close>

lemma py_split_not_Nil: "py_split sep s \<noteq> []"
  by (induction s) (auto split: list.splits)

lemma py_join_Cons: "ps \<noteq> [] \<Longrightarrow> py_join sep (p # ps) = p @ sep # py_join sep ps"
  by (cases ps) auto

lemma py_join_Cons_hd:
  "py_join sep ((c # p) # ps) = c # py_join sep (p # ps)"
  by (cases ps) auto

lemma py_join_split: "py_join sep (py_split sep s) = s"
proof (induction s)
  case Nil
  then show ?case by simp
next
  case (Cons c s)
  show ?case
  proof (cases "c = sep")
    case True
    then show ?thesis using Cons.IH by (simp add: py_join_Cons py_split_not_Nil)
  next
    case False
    obtain p ps where sp: "py_split sep s = p # ps"
      using py_split_not_Nil [of sep s] by (cases "py_split sep s") auto
    then show ?thesis using False Cons.IH by (simp add: py_join_Cons_hd)
  qed
qed

lemma py_split_no_sep: "p \<in> set (py_split sep s) \<Longrightarrow> sep \<notin> set p"
proof (induction s arbitrary: p)
  case Nil
  then show ?case by simp
next
  case (Cons c s)
  then show ?case by (auto split: if_splits list.splits)
qed

lemma py_strip_decompose:
  "s = takeWhile sp s @ py_strip sp s @ rev (takeWhile sp (rev (dropWhile sp s)))"
proof -
  let ?q = "dropWhile sp s"
  have "rev ?q = takeWhile sp (rev ?q) @ dropWhile sp (rev ?q)" by simp
  then have "?q = rev (dropWhile sp (rev ?q)) @ rev (takeWhile sp (rev ?q))"
    by (metis rev_append rev_rev_ident)
  then have "takeWhile sp s @ ?q =
      takeWhile sp s @ py_strip sp s @ rev (takeWhile sp (rev ?q))"
    by (simp add: py_strip_def)
  then show ?thesis by simp
qed

lemma py_strip_last: "py_strip sp s = r @ [c] \<Longrightarrow> \<not> sp c"
proof -
  assume a: "py_strip sp s = r @ [c]"
  then have "dropWhile sp (rev (dropWhile sp s)) = c # rev r"
    by (metis py_strip_def rev.simps(2) rev_rev_ident rev_append append_Nil rev_singleton_conv rev_swap)
  then show ?thesis by (metis hd_dropWhile list.sel(1) list.distinct(1))
qed

lemma py_strip_first: "py_strip sp s = c # r \<Longrightarrow> \<not> sp c"
proof -
  assume a: "py_strip sp s = c # r"
  let ?q = "dropWhile sp s"
  have q: "?q = py_strip sp s @ rev (takeWhile sp (rev ?q))"
    by (metis py_strip_def rev_append rev_rev_ident takeWhile_dropWhile_id)
  with a have "?q = c # (r @ rev (takeWhile sp (rev ?q)))" by simp
  then show ?thesis by (metis hd_dropWhile list.sel(1) list.distinct(1))
qed

lemma encode_ascii_ignore_ascii: "c \<in> set (encode_ascii_ignore u) \<Longrightarrow> c < 128"
  by (simp add: encode_ascii_ignore_def)

text \<open>
  Claim C4. \<^verbatim>\<open>get_task_ids\<close> splits the string at the commas (the pieces hold no comma
  and joined by commas they give the string back), strips the white space at both ends
  of each piece (what is removed is white space, and what is left neither starts nor
  ends with white space), normalizes each stripped piece with NFKD and encodes it to
  ASCII, dropping every code point from 128 on, and returns what the requester's
  \<^verbatim>\<open>get_tasks_list\<close> does with that list, in that state of the world.
\<close>

theorem get_task_ids_status_list:
  "(let pieces = py_split comma status_string; sp = py_isspace lib
    in get_task_ids lib self status_string =
         req_get_tasks_list (req self)
           (map (\<lambda>p. encode_ascii_ignore (normalize_NFKD lib (py_strip sp p))) pieces) \<and>
       py_join comma pieces = status_string \<and>
       (\<forall>p \<in> set pieces. comma \<notin> set p) \<and>
       (\<forall>p \<in> set pieces. \<exists>a b. p = a @ py_strip sp p @ b \<and> (\<forall>c \<in> set a. sp c) \<and> (\<forall>c \<in> set b. sp c)) \<and>
       (\<forall>p \<in> set pieces. \<forall>c r. (py_strip sp p = c # r \<or> py_strip sp p = r @ [c]) \<longrightarrow> \<not> sp c) \<and>
       (\<forall>u. encode_ascii_ignore u = filter (\<lambda>c. c < 128) u))"
proof -
  let ?sp = "py_isspace lib"
  have eq: "get_task_ids lib self status_string =
         req_get_tasks_list (req self)
           (map (\<lambda>p. encode_ascii_ignore (normalize_NFKD lib (py_strip ?sp p)))
              (py_split comma status_string))"
    by (simp add: get_task_ids_def comp_def)
  have dec: "\<exists>a b. p = a @ py_strip ?sp p @ b \<and> (\<forall>c \<in> set a. ?sp c) \<and> (\<forall>c \<in> set b. ?sp c)" for p
  proof (intro exI conjI)
    show "p = takeWhile ?sp p @ py_strip ?sp p @ rev (takeWhile ?sp (rev (dropWhile ?sp p)))"
      by (rule py_strip_decompose)
    show "\<forall>c \<in> set (takeWhile ?sp p). ?sp c"
      by (auto dest: set_takeWhileD)
    show "\<forall>c \<in> set (rev (takeWhile ?sp (rev (dropWhile ?sp p)))). ?sp c"
      by (auto dest: set_takeWhileD)
  qed
  have ends: "\<forall>c r. (py_strip ?sp p = c # r \<or> py_strip ?sp p = r @ [c]) \<longrightarrow> \<not> ?sp c" for p
    using py_strip_first [of ?sp p] py_strip_last [of ?sp p] by blast
  show ?thesis
    unfolding Let_def
    using eq dec ends py_join_split [of comma status_string]
      py_split_no_sep [of _ comma status_string]
    by (simp add: encode_ascii_ignore_def)
qed

theorem get_task_ids_status_list_witness:
  "get_task_ids example_lib recording_wrapper [32, 65, 44, 233, 9] [] =
     (Inr [PStr (ustr ''7@1'')], [GetTasksList [[65], [101]]])"
  using get_task_ids_status_list [of "[32, 65, 44, 233, 9]" example_lib recording_wrapper]
  by (simp add: Let_def comma_def py_strip_def encode_ascii_ignore_def example_lib_def
      recording_wrapper_def recording_requester_def)

section \<open>The pass-through methods\<close>

text \<open>
  Claim C3, at the code: \<^verbatim>\<open>get_tasks\<close> calls \<^verbatim>\<open>self.get_task_ids()\<close> with no argument,
  while the method has the required parameter \<^verbatim>\<open>status_string\<close>. The call raises
  \<^verbatim>\<open>TypeError\<close> before the requester is asked anything, for every requester and in
  every state of the world, which is left as it was.
\<close>

theorem get_tasks_raises_TypeError:
  "get_tasks lib self s = (Inl TypeError, s)"
  by (simp add: get_tasks_def act_bind_def act_raise_def)

text \<open>
  Claim C7. \<^verbatim>\<open>has_task\<close> is the requester's \<^verbatim>\<open>has_task\<close> on the same \<open>tid\<close>: the same
  result and the same effect on the world. \<^verbatim>\<open>delete_task\<close>, \<^verbatim>\<open>hide_task_browser\<close> and
  \<^verbatim>\<open>show_task_browser\<close> leave the world as the requester's \<^verbatim>\<open>delete_task\<close> on that
  \<open>tid\<close>, the view manager's \<^verbatim>\<open>hide_browser\<close> and its \<^verbatim>\<open>show_browser\<close> leave it; an
  error of the callee is passed on, and otherwise the method returns \<^verbatim>\<open>None\<close>. The
  wrapper's attributes are parameters of the methods, which cannot change them.
\<close>

theorem pass_through_methods:
  "has_task self tid = req_has_task (req self) tid \<and>
   snd (delete_task self tid s) = snd (req_delete_task (req self) tid s) \<and>
   fst (delete_task self tid s) =
     map_sum id (\<lambda>_. PNone) (fst (req_delete_task (req self) tid s)) \<and>
   snd (hide_task_browser self s) = snd (vm_hide_browser (view_manager self) s) \<and>
   fst (hide_task_browser self s) =
     map_sum id (\<lambda>_. PNone) (fst (vm_hide_browser (view_manager self) s)) \<and>
   snd (show_task_browser self s) = snd (vm_show_browser (view_manager self) s) \<and>
   fst (show_task_browser self s) =
     map_sum id (\<lambda>_. PNone) (fst (vm_show_browser (view_manager self) s))"
  by (simp add: has_task_def delete_task_def hide_task_browser_def show_task_browser_def
      act_bind_def act_return_def split: prod.splits sum.splits)

theorem pass_through_methods_witness:
  "has_task recording_wrapper (PStr (ustr ''7@1'')) [] =
     (Inr (PBool True), [HasTask (PStr (ustr ''7@1''))]) \<and>
   delete_task recording_wrapper (PStr (ustr ''7@1'')) [] =
     (Inr PNone, [DeleteTask (PStr (ustr ''7@1''))]) \<and>
   hide_task_browser recording_wrapper [] = (Inr PNone, [HideBrowser]) \<and>
   show_task_browser recording_wrapper [] = (Inr PNone, [ShowBrowser])"
  using pass_through_methods [of recording_wrapper "PStr (ustr ''7@1'')" "[]"]
  by (simp add: recording_wrapper_def recording_requester_def recording_view_manager_def
      prod_eq_iff)

text \<open>
  Claim C8. The result of \<^verbatim>\<open>get_active_tasks\<close> and its effect on the world do not
  depend on the argument \<^verbatim>\<open>tags\<close>: for any two values they are those of
  \<^verbatim>\<open>get_tasks_filtered(['active', 'workable'])\<close>.
\<close>

theorem get_active_tasks_ignores_tags:
  "get_active_tasks lib self tags1 s = get_active_tasks lib self tags2 s \<and>
   get_active_tasks lib self tags1 s =
     get_tasks_filtered lib self [PStr (ustr ''active''), PStr (ustr ''workable'')] s"
  by (simp add: get_active_tasks_def)

theorem get_active_tasks_ignores_tags_witness:
  "get_active_tasks example_lib recording_wrapper PNone [] =
     get_active_tasks example_lib recording_wrapper (PList [PStr (ustr ''@home'')]) [] \<and>
   get_active_tasks example_lib recording_wrapper PNone [] =
     (Inr (PList [task_to_dict ustr example_task]),
      [GetCustomTasksTree, ApplyFilter (PStr (ustr ''active'')), ApplyFilter (PStr (ustr ''workable'')),
       GetAllKeys, GetTask (PStr (ustr ''7@1''))])"
proof -
  have run: "get_tasks_filtered example_lib recording_wrapper
               [PStr (ustr ''active''), PStr (ustr ''workable'')] [] =
     (Inr (PList [task_to_dict ustr example_task]),
      [GetCustomTasksTree, ApplyFilter (PStr (ustr ''active'')), ApplyFilter (PStr (ustr ''workable'')),
       GetAllKeys, GetTask (PStr (ustr ''7@1''))])"
    by (simp add: get_tasks_filtered_def get_task_ids_filtered_def get_task_def act_bind_def
        act_return_def recording_wrapper_def recording_requester_def example_lib_def)
  from get_active_tasks_ignores_tags
    [of example_lib recording_wrapper PNone "[]" "PList [PStr (ustr ''@home'')]"] run
  show ?thesis by metis
qed

section \<open>Editor and browser\<close>

text \<open>
  Claim C10. In every state of a \<^verbatim>\<open>PluginAPI\<close> object, \<^verbatim>\<open>is_browser()\<close> is the negation
  of \<^verbatim>\<open>is_editor()\<close>: one of the two holds, and never both.
\<close>

theorem is_browser_not_is_editor:
  "is_browser self = (\<not> is_editor self) \<and>
   (is_editor self \<or> is_browser self) \<and>
   \<not> (is_editor self \<and> is_browser self)"
  by (simp add: is_browser_def)

theorem is_browser_not_is_editor_witness:
  "is_editor \<lparr>task_id = PStr (ustr ''7@1''), taskwidget_id = 0, taskwidget_widg = ([] :: nat list)\<rparr> \<and>
   \<not> is_browser \<lparr>task_id = PStr (ustr ''7@1''), taskwidget_id = 0, taskwidget_widg = ([] :: nat list)\<rparr> \<and>
   is_browser \<lparr>task_id = PNone, taskwidget_id = 0, taskwidget_widg = ([] :: nat list)\<rparr>"
  using is_browser_not_is_editor
    [of "\<lparr>task_id = PStr (ustr ''7@1''), taskwidget_id = 0, taskwidget_widg = ([] :: nat list)\<rparr>"]
    is_browser_not_is_editor
    [of "\<lparr>task_id = PNone, taskwidget_id = 0, taskwidget_widg = ([] :: nat list)\<rparr>"]
  by (simp add: is_editor_def ustr_def)

section \<open>Removing a widget from the task editor\<close>

lemma remove_widget_suite_result:
  "remove_widget_suite tk widg_id st = (Inr x, st') \<Longrightarrow> x = PNone"
  by (auto simp: remove_widget_suite_def act_bind_def act_return_def
      split: prod.splits sum.splits option.splits if_splits)

text \<open>
  Claim C6. In every state of the object and of the world and for every \<open>widg_id\<close>,
  \<^verbatim>\<open>remove_widget_from_taskeditor\<close> returns (\<^verbatim>\<open>None\<close>) and raises nothing. When the API is
  not an editor or \<open>widg_id\<close> is false, nothing changes at all. Otherwise an error
  raised while the container is looked up, the id is searched, the widget is popped or
  removed is handled: the call still returns, and what the handler adds to the state the
  error left is the logged message with that error.
\<close>

theorem remove_widget_never_raises:
  "fst (remove_widget_from_taskeditor tk widg_id (self, s)) = Inr PNone \<and>
   (\<not> (is_editor self \<and> truthy widg_id) \<longrightarrow>
      remove_widget_from_taskeditor tk widg_id (self, s) = (Inr PNone, (self, s))) \<and>
   (is_editor self \<and> truthy widg_id \<longrightarrow>
      (\<forall>e self' s'. remove_widget_suite tk widg_id (self, s) = (Inl e, (self', s')) \<longrightarrow>
         remove_widget_from_taskeditor tk widg_id (self, s) =
           (Inr PNone, (self', log_exception tk remove_message e s'))) \<and>
      (\<forall>x st'. remove_widget_suite tk widg_id (self, s) = (Inr x, st') \<longrightarrow>
         remove_widget_from_taskeditor tk widg_id (self, s) = (Inr PNone, st')))"
proof -
  have ret: "fst (remove_widget_from_taskeditor tk widg_id (self, s)) = Inr PNone"
  proof (cases "is_editor self \<and> truthy widg_id")
    case False
    then show ?thesis by (auto simp: remove_widget_from_taskeditor_def)
  next
    case True
    obtain r st' where run: "remove_widget_suite tk widg_id (self, s) = (r, st')"
      by (cases "remove_widget_suite tk widg_id (self, s)")
    show ?thesis
    proof (cases r)
      case (Inl e)
      with True run show ?thesis
        by (simp add: remove_widget_from_taskeditor_def act_try_def split: prod.splits)
    next
      case (Inr x)
      with run have "x = PNone" by (simp add: remove_widget_suite_result)
      with True run Inr show ?thesis
        by (simp add: remove_widget_from_taskeditor_def act_try_def)
    qed
  qed
  have idle: "\<not> (is_editor self \<and> truthy widg_id) \<longrightarrow>
      remove_widget_from_taskeditor tk widg_id (self, s) = (Inr PNone, (self, s))"
    by (auto simp: remove_widget_from_taskeditor_def)
  have caught: "is_editor self \<and> truthy widg_id \<longrightarrow>
      (\<forall>e self' s'. remove_widget_suite tk widg_id (self, s) = (Inl e, (self', s')) \<longrightarrow>
         remove_widget_from_taskeditor tk widg_id (self, s) =
           (Inr PNone, (self', log_exception tk remove_message e s')))"
    by (simp add: remove_widget_from_taskeditor_def act_try_def)
  have normal: "is_editor self \<and> truthy widg_id \<longrightarrow>
      (\<forall>x st'. remove_widget_suite tk widg_id (self, s) = (Inr x, st') \<longrightarrow>
         remove_widget_from_taskeditor tk widg_id (self, s) = (Inr PNone, st'))"
    using remove_widget_suite_result [of tk widg_id "(self, s)"]
    by (auto simp: remove_widget_from_taskeditor_def act_try_def)
  from ret idle caught normal show ?thesis by blast
qed

theorem remove_widget_never_raises_witness:
  "is_editor example_editor \<and> truthy (PInt 2) \<and>
   remove_widget_suite example_toolkit (PInt 2) (example_editor, []) =
     (Inl IndexError, (example_editor, [])) \<and>
   remove_widget_from_taskeditor example_toolkit (PInt 2) (example_editor, []) =
     (Inr PNone, (example_editor, [Logged remove_message IndexError])) \<and>
   \<not> is_editor example_browser \<and>
   remove_widget_from_taskeditor example_toolkit (PInt 2) (example_browser, []) =
     (Inr PNone, (example_browser, []))"
proof -
  have ed: "is_editor example_editor"
    by (simp add: is_editor_def example_editor_def ustr_def)
  have br: "\<not> is_editor example_browser"
    by (simp add: is_editor_def example_browser_def)
  have suite: "remove_widget_suite example_toolkit (PInt 2) (example_editor, []) =
     (Inl IndexError, (example_editor, []))"
    by (simp add: remove_widget_suite_def act_bind_def act_return_def in_world_def
        taskwidget_widg_contains_def taskwidget_widg_pop_def list_pop_def example_toolkit_def
        example_editor_def)
  have lg: "log_exception example_toolkit remove_message IndexError [] =
      [Logged remove_message IndexError]"
    by (simp add: example_toolkit_def)
  from ed br suite lg
    remove_widget_never_raises [of example_toolkit "PInt 2" example_editor "[]"]
    remove_widget_never_raises [of example_toolkit "PInt 2" example_browser "[]"]
  show ?thesis by simp
qed

section \<open>Loading and saving a configuration\<close>

lemma map_of_dict_setitem: "map_of (dict_setitem d k v) = (map_of d)(k \<mapsto> v)"
  by (induction d) (auto simp: fun_eq_iff)

lemma keys_dict_setitem: "fst ` set (dict_setitem d k v) = insert k (fst ` set d)"
proof (induction d)
  case Nil
  then show ?case by simp
next
  case (Cons p d)
  obtain k' v' where p: "p = (k', v')" by (cases p)
  show ?case
  proof (cases "k' = k")
    case True
    then show ?thesis by (simp add: p)
  next
    case False
    then show ?thesis using Cons.IH by (simp add: p insert_commute)
  qed
qed

lemma map_of_dict_update:
  "distinct (map fst ps) \<Longrightarrow>
   map_of (dict_update d ps) k = (case map_of ps k of Some v \<Rightarrow> Some v | None \<Rightarrow> map_of d k)"
proof (induction ps arbitrary: d)
  case Nil
  then show ?case by simp
next
  case (Cons p ps)
  obtain k' v' where p: "p = (k', v')" by (cases p)
  from Cons.prems p have d: "distinct (map fst ps)" and fresh: "k' \<notin> fst ` set ps"
    by auto
  from fresh have none: "map_of ps k' = None"
    by (simp add: map_of_eq_None_iff)
  show ?case
    using Cons.IH [OF d, of "dict_setitem d k' v'"] none
    by (auto simp: p map_of_dict_setitem split: option.splits)
qed

lemma keys_dict_update: "fst ` set (dict_update d ps) = fst ` set d \<union> fst ` set ps"
proof (induction ps arbitrary: d)
  case Nil
  then show ?case by simp
next
  case (Cons p ps)
  obtain k v where p: "p = (k, v)" by (cases p)
  have "fst ` set (dict_update d (p # ps)) = fst ` set (dict_setitem d k v) \<union> fst ` set ps"
    using Cons.IH [of "dict_setitem d k v"] by (simp add: p)
  also have "\<dots> = fst ` set d \<union> fst ` set (p # ps)"
    by (simp add: keys_dict_setitem p)
  finally show ?case .
qed

lemma load_suite_cases:
  "load_suite sys path fs config =
     (case open_rb sys path fs of
        Inl e \<Rightarrow> (Inl (Exception e), config)
      | Inr content \<Rightarrow>
          (case pickle_load sys content of
             Inl r \<Rightarrow> (Inl r, config)
           | Inr item \<Rightarrow> config_update item config))"
  by (simp add: load_suite_def raising_bind_def raising_of_error_def raising_of_result_def
      split: sum.splits)

lemma load_configuration_object_cases:
  "load_configuration_object sys plugin_name filename default_values fs =
     (case load_suite sys (os_path_join (plugin_configuration_dir sys plugin_name) filename) fs
             (case default_values of Some d \<Rightarrow> d | None \<Rightarrow> []) of
        (Inl r, config') \<Rightarrow> (case r of Exception e \<Rightarrow> Inr config' | _ \<Rightarrow> Inl r)
      | (Inr u, config') \<Rightarrow> Inr config')"
  by (simp add: load_configuration_object_def Let_def try_except_Exception_def
      raising_return_def split: prod.splits sum.splits raised.splits)

lemma load_configuration_object_Dict:
  assumes "open_rb sys (os_path_join (plugin_configuration_dir sys plugin_name) filename) fs
      = Inr content"
    and "pickle_load sys content = Inr (Dict d)"
  shows "load_configuration_object sys plugin_name filename default_values fs =
      Inr (dict_update (case default_values of Some d \<Rightarrow> d | None \<Rightarrow> []) d)"
  using assms by (simp add: load_configuration_object_cases load_suite_cases)

text \<open>
  Claim C5, as stated, does not hold: \<^verbatim>\<open>load_configuration_object\<close> can raise. The
  configuration file of the plugin \<^verbatim>\<open>p\<close> holds the pickle of a call of \<^verbatim>\<open>sys.exit\<close>;
  unpickling it raises \<^verbatim>\<open>SystemExit\<close>, which is not an instance of \<^verbatim>\<open>Exception\<close>, so the
  handler does not catch it and the call raises it instead of returning the defaults.
\<close>

theorem load_configuration_object_raises_SystemExit:
  "open_rb example_system (os_path_join (plugin_configuration_dir example_system ''p'') ''f'')
       ([], [(''/cfg/plugins/p/f'', exit_pickle)]) = Inr exit_pickle \<and>
   pickle_load example_system exit_pickle = Inl SystemExit \<and>
   load_configuration_object example_system ''p'' ''f'' (Some [(1, 5)])
       ([], [(''/cfg/plugins/p/f'', exit_pickle)]) = Inl SystemExit"
  by (simp add: load_configuration_object_def Let_def try_except_Exception_def
      raising_return_def load_suite_def raising_bind_def raising_of_error_def
      raising_of_result_def os_path_join_def example_system_def example_load_def)

text \<open>
  Claim C5, amended. For every plugin name, file name and optional dict of defaults, and
  every file system, \<^verbatim>\<open>load_configuration_object\<close> raises no instance of \<^verbatim>\<open>Exception\<close>.
  When the file cannot be opened or read, or unpickling it raises an instance of
  \<^verbatim>\<open>Exception\<close>, it returns the defaults (the empty dict when \<^verbatim>\<open>default_values\<close> is
  \<^verbatim>\<open>None\<close>). When an object is unpickled, it returns the defaults updated with the pairs
  that \<^verbatim>\<open>update\<close> stored from it, whether \<^verbatim>\<open>update\<close> finished or raised an instance of
  \<^verbatim>\<open>Exception\<close>; for a dict these are all its pairs: its keys have its values, every
  other key has the value of the defaults. What unpickling or \<^verbatim>\<open>update\<close> raises that is
  not an instance of \<^verbatim>\<open>Exception\<close> is raised by the call.
\<close>

theorem load_configuration_object_catches_Exception:
  "(let config = (case default_values of Some d \<Rightarrow> d | None \<Rightarrow> []);
        path = os_path_join (plugin_configuration_dir sys plugin_name) filename;
        loaded = load_configuration_object sys plugin_name filename default_values fs
    in (\<forall>e. loaded \<noteq> Inl (Exception e)) \<and>
       (\<forall>e. open_rb sys path fs = Inl e \<longrightarrow> loaded = Inr config) \<and>
       (\<forall>content e. open_rb sys path fs = Inr content \<and>
            pickle_load sys content = Inl (Exception e) \<longrightarrow>
          loaded = Inr config) \<and>
       (\<forall>content r. open_rb sys path fs = Inr content \<and> pickle_load sys content = Inl r \<and>
            (\<forall>e. r \<noteq> Exception e) \<longrightarrow>
          loaded = Inl r) \<and>
       (\<forall>content d. open_rb sys path fs = Inr content \<and> pickle_load sys content = Inr (Dict d) \<longrightarrow>
          loaded = Inr (dict_update config d) \<and>
          fst ` set (dict_update config d) = fst ` set config \<union> fst ` set d \<and>
          (distinct (map fst d) \<longrightarrow>
             (\<forall>k. map_of (dict_update config d) k =
                (case map_of d k of Some v \<Rightarrow> Some v | None \<Rightarrow> map_of config k)))) \<and>
       (\<forall>content ps. open_rb sys path fs = Inr content \<and>
            pickle_load sys content = Inr (Other ps None) \<longrightarrow>
          loaded = Inr (dict_update config ps)) \<and>
       (\<forall>content ps e. open_rb sys path fs = Inr content \<and>
            pickle_load sys content = Inr (Other ps (Some (Exception e))) \<longrightarrow>
          loaded = Inr (dict_update config ps)) \<and>
       (\<forall>content ps r. open_rb sys path fs = Inr content \<and>
            pickle_load sys content = Inr (Other ps (Some r)) \<and> (\<forall>e. r \<noteq> Exception e) \<longrightarrow>
          loaded = Inl r))"
proof -
  let ?config = "case default_values of Some d \<Rightarrow> d | None \<Rightarrow> []"
  let ?path = "os_path_join (plugin_configuration_dir sys plugin_name) filename"
  let ?loaded = "load_configuration_object sys plugin_name filename default_values fs"
  have no_exception: "\<forall>e. ?loaded \<noteq> Inl (Exception e)"
    by (auto simp: load_configuration_object_cases split: prod.splits sum.splits raised.splits)
  have not_opened: "\<forall>e. open_rb sys ?path fs = Inl e \<longrightarrow> ?loaded = Inr ?config"
    by (simp add: load_configuration_object_cases load_suite_cases)
  have not_unpickled: "\<forall>content e. open_rb sys ?path fs = Inr content \<and>
      pickle_load sys content = Inl (Exception e) \<longrightarrow> ?loaded = Inr ?config"
    by (simp add: load_configuration_object_cases load_suite_cases)
  have left: "\<forall>content r. open_rb sys ?path fs = Inr content \<and>
      pickle_load sys content = Inl r \<and> (\<forall>e. r \<noteq> Exception e) \<longrightarrow> ?loaded = Inl r"
    by (auto simp: load_configuration_object_cases load_suite_cases split: raised.splits)
  have dict: "\<forall>content d. open_rb sys ?path fs = Inr content \<and>
      pickle_load sys content = Inr (Dict d) \<longrightarrow>
        ?loaded = Inr (dict_update ?config d) \<and>
        fst ` set (dict_update ?config d) = fst ` set ?config \<union> fst ` set d \<and>
        (distinct (map fst d) \<longrightarrow>
           (\<forall>k. map_of (dict_update ?config d) k =
              (case map_of d k of Some v \<Rightarrow> Some v | None \<Rightarrow> map_of ?config k)))"
    by (simp add: load_configuration_object_Dict keys_dict_update map_of_dict_update)
  have finished: "\<forall>content ps. open_rb sys ?path fs = Inr content \<and>
      pickle_load sys content = Inr (Other ps None) \<longrightarrow> ?loaded = Inr (dict_update ?config ps)"
    by (simp add: load_configuration_object_cases load_suite_cases)
  have failed: "\<forall>content ps e. open_rb sys ?path fs = Inr content \<and>
      pickle_load sys content = Inr (Other ps (Some (Exception e))) \<longrightarrow>
        ?loaded = Inr (dict_update ?config ps)"
    by (simp add: load_configuration_object_cases load_suite_cases)
  have left_update: "\<forall>content ps r. open_rb sys ?path fs = Inr content \<and>
      pickle_load sys content = Inr (Other ps (Some r)) \<and> (\<forall>e. r \<noteq> Exception e) \<longrightarrow>
        ?loaded = Inl r"
    by (auto simp: load_configuration_object_cases load_suite_cases split: raised.splits)
  from no_exception not_opened not_unpickled left dict finished failed left_update
  show ?thesis unfolding Let_def by (intro conjI)
qed

theorem load_configuration_object_catches_Exception_witness:
  "load_configuration_object example_system ''p'' ''f'' None ([], []) = Inr [] \<and>
   load_configuration_object example_system ''p'' ''f'' (Some [(1, 5)])
       ([], [(''/cfg/plugins/p/f'', [7])]) = Inr [(1, 5)] \<and>
   load_configuration_object example_system ''p'' ''f'' (Some [(1, 5)])
       ([], [(''/cfg/plugins/p/f'', [1])]) = Inr [(1, 5)] \<and>
   load_configuration_object example_system ''p'' ''f'' (Some [(1, 5)])
       ([], [(''/cfg/plugins/p/f'', [2, 1, 2, 3])]) = Inr [(1, 2)] \<and>
   load_configuration_object example_system ''p'' ''f'' (Some [(1, 5), (2, 6)])
       ([], [(''/cfg/plugins/p/f'', [0, 2, 9, 3, 4])]) = Inr [(1, 5), (2, 9), (3, 4)] \<and>
   load_configuration_object example_system ''p'' ''f'' None
       ([], [(''/cfg/plugins/p/f'', exit_pickle)]) = Inl SystemExit"
proof -
  have path: "os_path_join (plugin_configuration_dir example_system ''p'') ''f'' = ''/cfg/plugins/p/f''"
    by (simp add: os_path_join_def example_system_def)
  have missing: "open_rb example_system ''/cfg/plugins/p/f'' ([], []) = Inl OSError"
    by (simp add: example_system_def)
  have garbage: "open_rb example_system ''/cfg/plugins/p/f'' ([], [(''/cfg/plugins/p/f'', [7])]) = Inr [7]
      \<and> pickle_load example_system [7] = Inl (Exception PickleError)"
    by (simp add: example_system_def example_load_def exit_pickle_def)
  have number: "open_rb example_system ''/cfg/plugins/p/f'' ([], [(''/cfg/plugins/p/f'', [1])]) = Inr [1]
      \<and> pickle_load example_system [1] = Inr (Other [] (Some (Exception TypeError)))"
    by (simp add: example_system_def example_load_def exit_pickle_def)
  have partly: "open_rb example_system ''/cfg/plugins/p/f''
        ([], [(''/cfg/plugins/p/f'', [2, 1, 2, 3])]) = Inr [2, 1, 2, 3]
      \<and> pickle_load example_system [2, 1, 2, 3] = Inr (Other [(1, 2)] (Some (Exception TypeError)))"
    by (simp add: example_system_def example_load_def exit_pickle_def)
  have stored: "open_rb example_system ''/cfg/plugins/p/f''
        ([], [(''/cfg/plugins/p/f'', [0, 2, 9, 3, 4])]) = Inr [0, 2, 9, 3, 4]
      \<and> pickle_load example_system [0, 2, 9, 3, 4] = Inr (Dict [(2, 9), (3, 4)])"
    by (simp add: example_system_def example_load_def exit_pickle_def)
  have exits: "open_rb example_system ''/cfg/plugins/p/f''
        ([], [(''/cfg/plugins/p/f'', exit_pickle)]) = Inr exit_pickle
      \<and> pickle_load example_system exit_pickle = Inl SystemExit"
    by (simp add: example_system_def example_load_def)
  have upd: "dict_update [(1, 5), (2, 6)] [(2, 9), (3, 4)] = [(1 :: nat, 5 :: nat), (2, 9), (3, 4)]"
    by simp
  have upd': "dict_update [(1, 5)] [(1, 2)] = [(1 :: nat, 2 :: nat)]"
    by simp
  from load_configuration_object_catches_Exception
    [of None example_system "''p''" "''f''" "([], [])"]
    missing path
  have a: "load_configuration_object example_system ''p'' ''f'' None ([], []) = Inr []"
    by (simp add: Let_def)
  from load_configuration_object_catches_Exception
    [of "Some [(1, 5)]" example_system "''p''" "''f''" "([], [(''/cfg/plugins/p/f'', [7])])"]
    garbage path
  have b: "load_configuration_object example_system ''p'' ''f'' (Some [(1, 5)])
       ([], [(''/cfg/plugins/p/f'', [7])]) = Inr [(1, 5)]"
    by (simp add: Let_def)
  from load_configuration_object_catches_Exception
    [of "Some [(1, 5)]" example_system "''p''" "''f''" "([], [(''/cfg/plugins/p/f'', [1])])"]
    number path
  have c: "load_configuration_object example_system ''p'' ''f'' (Some [(1, 5)])
       ([], [(''/cfg/plugins/p/f'', [1])]) = Inr [(1, 5)]"
    by (simp add: Let_def)
  from load_configuration_object_catches_Exception
    [of "Some [(1, 5)]" example_system "''p''" "''f''"
        "([], [(''/cfg/plugins/p/f'', [2, 1, 2, 3])])"]
    partly path
  have d: "load_configuration_object example_system ''p'' ''f'' (Some [(1, 5)])
       ([], [(''/cfg/plugins/p/f'', [2, 1, 2, 3])]) = Inr (dict_update [(1, 5)] [(1, 2)])"
    by (simp add: Let_def)
  from load_configuration_object_catches_Exception
    [of "Some [(1, 5), (2, 6)]" example_system "''p''" "''f''"
        "([], [(''/cfg/plugins/p/f'', [0, 2, 9, 3, 4])])"]
    stored path
  have e: "load_configuration_object example_system ''p'' ''f'' (Some [(1, 5), (2, 6)])
       ([], [(''/cfg/plugins/p/f'', [0, 2, 9, 3, 4])]) = Inr (dict_update [(1, 5), (2, 6)] [(2, 9), (3, 4)])"
    by (simp add: Let_def)
  from load_configuration_object_catches_Exception
    [of None example_system "''p''" "''f''" "([], [(''/cfg/plugins/p/f'', exit_pickle)])"]
    exits path
  have f: "load_configuration_object example_system ''p'' ''f'' None
       ([], [(''/cfg/plugins/p/f'', exit_pickle)]) = Inl SystemExit"
    by (simp add: Let_def)
  from a b c d e f upd upd' show ?thesis by simp
qed

lemma save_configuration_object_written:
  assumes "save_configuration_object sys plugin_name filename item fs = (Inr r, fs')"
  shows "\<exists>bytes fs2. pickle_dump sys item = Inr bytes \<and>
           file_write sys (os_path_join (plugin_configuration_dir sys plugin_name) filename)
             bytes fs2 = (Inr (), fs')"
  using assms
  by (auto simp: save_configuration_object_def Let_def act_bind_def act_of_result_def
      act_return_def split: prod.splits sum.splits if_splits)

text \<open>
  Claim C9. Let \<^verbatim>\<open>save_configuration_object(plugin_name, filename, item)\<close> return, for
  a dict \<open>item\<close>, on a file system where a file that has been written reads back as
  the bytes written and where the pickle of \<open>item\<close> unpickles to \<open>item\<close>. Then
  \<^verbatim>\<open>load_configuration_object(plugin_name, filename, default_values)\<close> on the file system
  that the save left returns the defaults updated with \<open>item\<close>: a dict that holds
  every pair of \<open>item\<close>, whose keys are those of the defaults and of \<open>item\<close>, and
  in which a key that \<open>item\<close> does not have keeps the value of the defaults.
\<close>

theorem save_then_load_round_trip:
  assumes saved: "save_configuration_object sys plugin_name filename (Dict item) fs = (Inr r, fs')"
    and read_back: "\<And>bytes fs2.
        file_write sys (os_path_join (plugin_configuration_dir sys plugin_name) filename) bytes fs2
          = (Inr (), fs') \<Longrightarrow>
        open_rb sys (os_path_join (plugin_configuration_dir sys plugin_name) filename) fs'
          = Inr bytes"
    and unpickles: "\<And>bytes. pickle_dump sys (Dict item) = Inr bytes \<Longrightarrow>
        pickle_load sys bytes = Inr (Dict item)"
    and keys: "distinct (map fst item)"
  shows "(let config = (case default_values of Some d \<Rightarrow> d | None \<Rightarrow> []);
              loaded = dict_update config item
          in load_configuration_object sys plugin_name filename default_values fs' = Inr loaded \<and>
             (\<forall>(k, v) \<in> set item. map_of loaded k = Some v) \<and>
             fst ` set loaded = fst ` set config \<union> fst ` set item \<and>
             (\<forall>k. k \<notin> fst ` set item \<longrightarrow> map_of loaded k = map_of config k))"
proof -
  let ?path = "os_path_join (plugin_configuration_dir sys plugin_name) filename"
  let ?config = "case default_values of Some d \<Rightarrow> d | None \<Rightarrow> []"
  from save_configuration_object_written [OF saved]
  obtain bytes fs2 where dump: "pickle_dump sys (Dict item) = Inr bytes"
    and written: "file_write sys ?path bytes fs2 = (Inr (), fs')"
    by blast
  from read_back [OF written] have rd: "open_rb sys ?path fs' = Inr bytes" .
  from unpickles [OF dump] have ld: "pickle_load sys bytes = Inr (Dict item)" .
  have loaded: "load_configuration_object sys plugin_name filename default_values fs' =
      Inr (dict_update ?config item)"
    by (rule load_configuration_object_Dict [OF rd ld])
  have pairs: "\<forall>(k, v) \<in> set item. map_of (dict_update ?config item) k = Some v"
    using keys by (auto simp: map_of_dict_update dest: map_of_is_SomeI [OF keys])
  have absent: "\<forall>k. k \<notin> fst ` set item \<longrightarrow>
      map_of (dict_update ?config item) k = map_of ?config k"
  proof (intro allI impI)
    fix k
    assume "k \<notin> fst ` set item"
    then have "map_of item k = None"
      by (simp add: map_of_eq_None_iff)
    then show "map_of (dict_update ?config item) k = map_of ?config k"
      by (simp add: map_of_dict_update [OF keys])
  qed
  show ?thesis
    unfolding Let_def using loaded pairs absent keys_dict_update [of ?config item] by blast
qed

theorem save_then_load_round_trip_witness:
  "save_configuration_object example_system ''p'' ''f'' (Dict [(2, 9), (3, 4)]) ([], []) =
     (Inr PNone, ([''/cfg/plugins/p''], [(''/cfg/plugins/p/f'', [0, 2, 9, 3, 4])])) \<and>
   distinct (map fst [(2 :: nat, 9 :: nat), (3, 4)]) \<and>
   load_configuration_object example_system ''p'' ''f'' (Some [(1, 5), (2, 6)])
     ([''/cfg/plugins/p''], [(''/cfg/plugins/p/f'', [0, 2, 9, 3, 4])]) =
       Inr [(1, 5), (2, 9), (3, 4)]"
proof -
  let ?fs' = "([''/cfg/plugins/p''], [(''/cfg/plugins/p/f'', [0, 2, 9, 3, 4 :: nat])])"
  have path: "os_path_join (plugin_configuration_dir example_system ''p'') ''f'' = ''/cfg/plugins/p/f''"
    by (simp add: os_path_join_def example_system_def)
  have saved: "save_configuration_object example_system ''p'' ''f'' (Dict [(2, 9), (3, 4)]) ([], []) =
     (Inr PNone, ?fs')"
    by (simp add: save_configuration_object_def Let_def act_bind_def act_of_result_def
        act_return_def os_path_join_def example_system_def)
  have read_back: "open_rb example_system
        (os_path_join (plugin_configuration_dir example_system ''p'') ''f'') ?fs' = Inr bytes"
    if "file_write example_system
          (os_path_join (plugin_configuration_dir example_system ''p'') ''f'') bytes fs2
        = (Inr (), ?fs')" for bytes fs2
  proof -
    obtain dirs files where fs2: "fs2 = (dirs, files)" by (cases fs2)
    from that have "dict_setitem files ''/cfg/plugins/p/f'' bytes =
        [(''/cfg/plugins/p/f'', [0, 2, 9, 3, 4])]"
      by (simp add: os_path_join_def fs2 example_system_def)
    then have "map_of (dict_setitem files ''/cfg/plugins/p/f'' bytes) ''/cfg/plugins/p/f'' =
        Some [0, 2, 9, 3, 4]"
      by simp
    then have "bytes = [0, 2, 9, 3, 4]"
      by (simp add: map_of_dict_setitem)
    then show ?thesis
      by (simp add: os_path_join_def example_system_def)
  qed
  have unpickles: "pickle_load example_system bytes = Inr (Dict [(2, 9), (3, 4)])"
    if "pickle_dump example_system (Dict [(2, 9), (3, 4)]) = Inr bytes" for bytes
    using that by (auto simp: example_system_def example_load_def exit_pickle_def)
  have keys: "distinct (map fst [(2 :: nat, 9 :: nat), (3, 4)])"
    by simp
  have upd: "dict_update [(1, 5), (2, 6)] [(2, 9), (3, 4)] = [(1 :: nat, 5 :: nat), (2, 9), (3, 4)]"
    by simp
  from save_then_load_round_trip
    [of example_system "''p''" "''f''" "[(2, 9), (3, 4)]" "([], [])" PNone ?fs'
        "Some [(1, 5), (2, 6)]", OF saved read_back unpickles keys]
  have "load_configuration_object example_system ''p'' ''f'' (Some [(1, 5), (2, 6)]) ?fs' =
      Inr (dict_update [(1, 5), (2, 6)] [(2, 9), (3, 4)])"
    by (simp add: Let_def)
  with saved keys upd show ?thesis by simp
qed

end
